theory Spec2Isabelle
  imports Main "HOL-Library.Word"
begin

unbundle bit_operations_syntax

section \<open>Python values and errors\<close>

text \<open>
  The values that flow through the hook and the dataset. A dict is its list of items in
  insertion order, with string keys. A float is its binary64 bit pattern: the code never
  computes with one, it only coerces to float and throws the result away.
\<close>

datatype pyval =
    PyNone
  | PyBool bool
  | PyInt int
  | PyFloat "64 word"
  | PyStr string
  | PyList "pyval list"
  | PyTuple "pyval list"
  | PyDict "(string \<times> pyval) list"

text \<open>
  Exceptions as values. \<open>ValueError_eval k v\<close> is the error raised by \<open>_do_eval\<close>, whose
  message is formatted from the flattened key \<open>k\<close> and the value \<open>v\<close>;
  \<open>ValueError_classes v\<close> is the one raised by \<open>get_classes\<close> (message formatted from the
  type of \<open>v\<close>); \<open>ValueError_choice\<close> is raised by \<open>np.random.choice(0)\<close>.
\<close>

datatype py_error =
    ValueError_eval string pyval
  | ValueError_classes pyval
  | ValueError_choice
  | AssertionError pyval
  | AttributeError string
  | NameError string
  | TypeError string
  | IndexError

datatype 's outcome = Done 's | Raised py_error 's

fun state_of :: "'s outcome \<Rightarrow> 's" where
  "state_of (Done s) = s"
| "state_of (Raised e s) = s"

fun raised :: "'s outcome \<Rightarrow> py_error option" where
  "raised (Done s) = None"
| "raised (Raised e s) = Some e"

subsection \<open>Truth value of an object (\<open>if results:\<close>)\<close>

fun truthy :: "pyval \<Rightarrow> bool" where
  "truthy PyNone = False"
| "truthy (PyBool b) = b"
| "truthy (PyInt i) = (i \<noteq> 0)"
| "truthy (PyFloat w) = (w \<noteq> 0 \<and> w \<noteq> 0x8000000000000000)"
| "truthy (PyStr s) = (s \<noteq> [])"
| "truthy (PyList xs) = (xs \<noteq> [])"
| "truthy (PyTuple xs) = (xs \<noteq> [])"
| "truthy (PyDict d) = (d \<noteq> [])"

subsection \<open>Whether \<open>float(v)\<close> returns\<close>

text \<open>
  \<open>float\<close> on a string. A character is its code point, from 0 to 255. Code points from
  127 on are first replaced: the two white space characters among them, U+0085 and
  U+00A0, by a space, and every other one by \<open>?\<close>, which no number contains (the
  interpreter also cuts the string after the first \<open>?\<close>, which changes nothing: the
  string is refused either way). Then underscores are accepted only between two digits
  and dropped, the white space of C (9 to 13 and 32) is stripped at both ends, and the
  rest must be a decimal literal (digits with an optional point, at least one digit, an
  optional exponent with at least one digit) or, in any case of letters, \<open>inf\<close>,
  \<open>infinity\<close> or \<open>nan\<close>, each with an optional sign. A literal too large for binary64
  gives an infinity, not an error.
\<close>

definition is_digit :: "char \<Rightarrow> bool" where
  "is_digit c = (c \<in> set ''0123456789'')"

definition is_space :: "char \<Rightarrow> bool" where
  "is_space c = (of_char c \<in> {9::nat, 10, 11, 12, 13, 32})"

definition to_ascii :: "char \<Rightarrow> char" where
  "to_ascii c =
     (if (of_char c :: nat) < 127 then c
      else if of_char c \<in> {133::nat, 160} then CHR '' ''
      else CHR ''?'')"

definition is_sign :: "char \<Rightarrow> bool" where
  "is_sign c = (c = CHR ''+'' \<or> c = CHR ''-'')"

fun underscores_ok :: "char option \<Rightarrow> string \<Rightarrow> bool" where
  "underscores_ok prev [] = (prev \<noteq> Some CHR ''_'')"
| "underscores_ok prev (c # cs) =
     (if c = CHR ''_''
      then (case prev of None \<Rightarrow> False | Some p \<Rightarrow> is_digit p \<and> underscores_ok (Some c) cs)
      else if prev = Some CHR ''_'' then is_digit c \<and> underscores_ok (Some c) cs
      else underscores_ok (Some c) cs)"

definition strip :: "string \<Rightarrow> string" where
  "strip s = rev (dropWhile is_space (rev (dropWhile is_space s)))"

definition skip_sign :: "string \<Rightarrow> string" where
  "skip_sign s = (case s of [] \<Rightarrow> [] | c # cs \<Rightarrow> if is_sign c then cs else s)"

definition lower :: "char \<Rightarrow> char" where
  "lower c = (if 65 \<le> (of_char c :: nat) \<and> (of_char c :: nat) \<le> 90
              then char_of (of_char c + (32::nat)) else c)"

definition inf_or_nan :: "string \<Rightarrow> bool" where
  "inf_or_nan s = (map lower (skip_sign s) \<in> {''inf'', ''infinity'', ''nan''})"

definition exponent_ok :: "string \<Rightarrow> bool" where
  "exponent_ok s =
     (case s of
        [] \<Rightarrow> True
      | c # cs \<Rightarrow> (c = CHR ''e'' \<or> c = CHR ''E'') \<and> skip_sign cs \<noteq> [] \<and>
                 list_all is_digit (skip_sign cs))"

definition decimal_literal :: "string \<Rightarrow> bool" where
  "decimal_literal s =
     (let s1 = skip_sign s;
          int_part = takeWhile is_digit s1;
          r1 = dropWhile is_digit s1;
          frac_part = (case r1 of [] \<Rightarrow> [] | c # cs \<Rightarrow>
                         if c = CHR ''.'' then takeWhile is_digit cs else []);
          r2 = (case r1 of [] \<Rightarrow> [] | c # cs \<Rightarrow>
                  if c = CHR ''.'' then dropWhile is_digit cs else r1)
      in (int_part \<noteq> [] \<or> frac_part \<noteq> []) \<and> exponent_ok r2)"

definition float_of_str_ok :: "string \<Rightarrow> bool" where
  "float_of_str_ok s =
     (let a = map to_ascii s
      in underscores_ok None a \<and>
         (let t = strip (filter (\<lambda>c. c \<noteq> CHR ''_'') a)
          in decimal_literal t \<or> inf_or_nan t))"

text \<open>
  \<open>float\<close> on an int raises OverflowError from \<open>2^1024 - 2^970\<close> on (the first integer
  that rounds to \<open>2^1024\<close>); on None, a list, a tuple or a dict it raises TypeError.
\<close>

fun float_ok :: "pyval \<Rightarrow> bool" where
  "float_ok PyNone = False"
| "float_ok (PyBool b) = True"
| "float_ok (PyInt i) = (\<bar>i\<bar> < 2 ^ 1024 - 2 ^ 970)"
| "float_ok (PyFloat w) = True"
| "float_ok (PyStr s) = float_of_str_ok s"
| "float_ok (PyList xs) = False"
| "float_ok (PyTuple xs) = False"
| "float_ok (PyDict d) = False"

fun is_float :: "pyval \<Rightarrow> bool" where
  "is_float (PyFloat w) = True"
| "is_float v = False"

section \<open>The evaluation hook (detecter/evaluation/evalhook.py)\<close>

text \<open>
  The runner as the hook sees it: the counters and maxima it reads, and the metrics
  store, which is the list of the \<open>put_scalars\<close> calls it received, each with its named
  scalars and its smoothing hint.
\<close>

type_synonym put_call = "(string \<times> pyval) list \<times> bool"

record runner =
  iter :: int
  max_iter :: int
  epoch :: int
  max_epoch :: int
  storage :: "put_call list"

text \<open>
  Runner objects live in a heap, and the hook holds references to them. \<open>evals\<close> records
  every call of the evaluation callback, as the \<open>(iter, epoch)\<close> of the runner the event
  passed; \<open>barriers\<close> counts \<open>dist_comm.synchronize()\<close>.
\<close>

record world =
  runners :: "nat \<Rightarrow> runner"
  evals :: "(int \<times> int) list"
  barriers :: nat

text \<open>
  The hook object. \<open>func\<close> is \<open>self._func\<close>: the callback, given the number of calls made
  before, returns its result; \<open>None\<close> once \<open>del self._func\<close> has run. \<open>self.runner\<close> and
  \<open>self.trainer\<close> are attributes that \<open>__init__\<close> does not set: they come from the base
  class \<open>cvcore.Hook\<close>, which is not among the sources, so each is a reference that may
  be absent.
\<close>

record EvalHook =
  by_epoch :: bool
  period :: int
  func :: "(nat \<Rightarrow> pyval) option"
  self_runner :: "nat option"
  self_trainer :: "nat option"

definition EvalHook_init :: "(nat \<Rightarrow> pyval) \<Rightarrow> bool \<Rightarrow> int \<Rightarrow> EvalHook" where
  "EvalHook_init eval_function by_ep eval_period =
     \<lparr>by_epoch = by_ep, period = eval_period, func = Some eval_function,
      self_runner = None, self_trainer = None\<rparr>"

text \<open>
  Modelled from the spec: \<open>flatten_results_dict\<close> of \<open>detecter/utils/misc.py\<close>, which is
  not among the sources. The spec: ``Flatten the nested mapping into dotted/qualified
  scalar keys''. The separator is a parameter. The hook itself takes the flattening
  function as its first argument, so what is proved of the hook holds for any helper.
\<close>

fun dict_set :: "string \<Rightarrow> pyval \<Rightarrow> (string \<times> pyval) list \<Rightarrow> (string \<times> pyval) list" where
  "dict_set k v [] = [(k, v)]"
| "dict_set k v ((k', v') # kvs) =
     (if k' = k then (k, v) # kvs else (k', v') # dict_set k v kvs)"

fun flatten_into ::
  "string \<Rightarrow> string \<Rightarrow> (string \<times> pyval) list \<Rightarrow> (string \<times> pyval) list \<Rightarrow> (string \<times> pyval) list"
where
  "flatten_into sep pre [] acc = acc"
| "flatten_into sep pre ((k, PyDict d) # kvs) acc =
     flatten_into sep pre kvs (flatten_into sep (pre @ k @ sep) d acc)"
| "flatten_into sep pre ((k, v) # kvs) acc =
     flatten_into sep pre kvs (dict_set (pre @ k) v acc)"

fun flatten_results_dict :: "string \<Rightarrow> pyval \<Rightarrow> (string \<times> pyval) list" where
  "flatten_results_dict sep (PyDict d) = flatten_into sep [] d []"
| "flatten_results_dict sep v = []"

text \<open>The loop over the flattened items: the first value that \<open>float\<close> rejects raises.\<close>

fun coerce_loop :: "(string \<times> pyval) list \<Rightarrow> py_error option" where
  "coerce_loop [] = None"
| "coerce_loop ((k, v) # kvs) =
     (if float_ok v then coerce_loop kvs else Some (ValueError_eval k v))"

text \<open>
  \<open>runner.storage.put_scalars(**flattened_results, smoothing_hint=False)\<close>: a flattened
  key \<open>smoothing_hint\<close> meets the keyword of the same name, and the call raises TypeError
  before the store sees anything.
\<close>

definition put_scalars :: "nat \<Rightarrow> (string \<times> pyval) list \<Rightarrow> bool \<Rightarrow> world \<Rightarrow> world outcome" where
  "put_scalars r scalars smoothing_hint w =
     (if ''smoothing_hint'' \<in> fst ` set scalars
      then Raised (TypeError ''smoothing_hint'') w
      else Done (w\<lparr>runners := (runners w)
             (r := (runners w r)\<lparr>storage := storage (runners w r) @ [(scalars, smoothing_hint)]\<rparr>)\<rparr>))"

definition synchronize :: "world \<Rightarrow> world" where
  "synchronize w = w\<lparr>barriers := barriers w + 1\<rparr>"

definition do_eval ::
  "(pyval \<Rightarrow> (string \<times> pyval) list) \<Rightarrow> EvalHook \<Rightarrow> nat \<Rightarrow> world \<Rightarrow> world outcome" where
  "do_eval flatten self r w =
     (case func self of
        None \<Rightarrow> Raised (AttributeError ''_func'') w
      | Some f \<Rightarrow>
          (let results = f (length (evals w));
               w1 = w\<lparr>evals := evals w @ [(iter (runners w r), epoch (runners w r))]\<rparr>
           in if truthy results then
                (case results of
                   PyDict d \<Rightarrow>
                     (case coerce_loop (flatten results) of
                        Some e \<Rightarrow> Raised e w1
                      | None \<Rightarrow>
                          (case put_scalars r (flatten results) False w1 of
                             Raised e w2 \<Rightarrow> Raised e w2
                           | Done w2 \<Rightarrow> Done (synchronize w2)))
                 | _ \<Rightarrow> Raised (AssertionError results) w1)
              else Done (synchronize w1)))"

definition after_val_iter ::
  "(pyval \<Rightarrow> (string \<times> pyval) list) \<Rightarrow> EvalHook \<Rightarrow> nat \<Rightarrow> world \<Rightarrow> world outcome" where
  "after_val_iter flatten self r w =
     (if \<not> by_epoch self then
        (case self_runner self of
           None \<Rightarrow> Raised (AttributeError ''runner'') w
         | Some sr \<Rightarrow>
             (let next_iter = iter (runners w sr) + 1
              in if period self > 0 \<and> next_iter mod period self = 0
                 then (if next_iter \<noteq> max_iter (runners w sr)
                       then do_eval flatten self r w else Done w)
                 else Done w))
      else Done w)"

definition after_val_epoch ::
  "(pyval \<Rightarrow> (string \<times> pyval) list) \<Rightarrow> EvalHook \<Rightarrow> nat \<Rightarrow> world \<Rightarrow> world outcome" where
  "after_val_epoch flatten self r w =
     (if by_epoch self then
        (case self_runner self of
           None \<Rightarrow> Raised (AttributeError ''runner'') w
         | Some sr \<Rightarrow>
             (let next_epoch = epoch (runners w sr) + 1
              in if period self > 0 \<and> next_epoch mod period self = 0
                 then (if next_epoch \<noteq> max_epoch (runners w sr)
                       then do_eval flatten self r w else Done w)
                 else Done w))
      else Done w)"

text \<open>\<open>del self._func\<close>, the last statement of \<open>after_run\<close>.\<close>

definition del_func :: "EvalHook \<Rightarrow> world \<Rightarrow> (EvalHook \<times> world) outcome" where
  "del_func self w =
     (case func self of
        None \<Rightarrow> Raised (AttributeError ''_func'') (self, w)
      | Some f \<Rightarrow> Done (self\<lparr>func := None\<rparr>, w))"

definition after_run ::
  "(pyval \<Rightarrow> (string \<times> pyval) list) \<Rightarrow> EvalHook \<Rightarrow> nat \<Rightarrow> world \<Rightarrow> (EvalHook \<times> world) outcome"
where
  "after_run flatten self r w =
     (if by_epoch self then
        (case self_runner self of
           None \<Rightarrow> Raised (AttributeError ''runner'') (self, w)
         | Some sr \<Rightarrow>
             (case self_trainer self of
                None \<Rightarrow> Raised (AttributeError ''trainer'') (self, w)
              | Some st \<Rightarrow>
                  (if epoch (runners w sr) + 1 \<ge> max_epoch (runners w st)
                   then (case do_eval flatten self r w of
                           Raised e w' \<Rightarrow> Raised e (self, w')
                         | Done w' \<Rightarrow> del_func self w')
                   else del_func self w)))
      else
        (case self_runner self of
           None \<Rightarrow> Raised (AttributeError ''runner'') (self, w)
         | Some sr \<Rightarrow>
             (if iter (runners w sr) + 1 \<ge> max_iter (runners w sr)
              then (case do_eval flatten self r w of
                      Raised e w' \<Rightarrow> Raised e (self, w')
                    | Done w' \<Rightarrow> del_func self w')
              else del_func self w)))"

text \<open>
  Modelled from the spec: the epoch loop of the runner, which is not among the sources.
  The spec has the hook receive ``after a validation epoch'' once per epoch and ``after
  run completes'' at the end; here the runner's epoch counter takes the listed values in
  turn, and an exception raised by the hook ends the run.
\<close>

definition set_epoch :: "nat \<Rightarrow> int \<Rightarrow> world \<Rightarrow> world" where
  "set_epoch r e w = w\<lparr>runners := (runners w)(r := (runners w r)\<lparr>epoch := e\<rparr>)\<rparr>"

fun val_epochs ::
  "(pyval \<Rightarrow> (string \<times> pyval) list) \<Rightarrow> EvalHook \<Rightarrow> nat \<Rightarrow> int list \<Rightarrow> world \<Rightarrow> world outcome"
where
  "val_epochs flatten self r [] w = Done w"
| "val_epochs flatten self r (e # es) w =
     (case after_val_epoch flatten self r (set_epoch r e w) of
        Raised x w' \<Rightarrow> Raised x w'
      | Done w' \<Rightarrow> val_epochs flatten self r es w')"

text \<open>The spec's wording of what the store receives: every published scalar is a float.\<close>

fun all_floats :: "put_call list \<Rightarrow> bool" where
  "all_floats [] = True"
| "all_floats ((scalars, hint) # cs) = (list_all is_float (map snd scalars) \<and> all_floats cs)"

section \<open>The dataset (detecter/dataset/custom.py)\<close>

text \<open>
  A data-info record: the image's size and file, the annotation fields, and the two keys
  that \<open>pre_pipeline\<close> writes (\<open>None\<close> while the key is absent). Width and height are
  integers.
\<close>

record image_info =
  filename :: string
  width :: int
  height :: int

record data_info =
  img_info :: image_info
  ann_info :: pyval
  key_img_prefix :: "pyval option"
  key_bbox_fields :: "pyval option"

text \<open>
  The dataset object. \<open>data_infos\<close> is \<open>None\<close> when the attribute holds Python's None.
  \<open>pipeline\<close> is the composed pipeline (\<open>Compose\<close> is not among the sources): it is
  handed the stored record itself, so it gives back the record as it leaves it and its
  return value, \<open>None\<close> for an invalid sample.
\<close>

record 'a CustomDataset =
  ann_file :: string
  data_root :: "string option"
  img_prefix :: "string option"
  test_mode :: bool
  filter_empty_gt :: bool
  CLASSES :: pyval
  data_infos :: "data_info list option"
  pipeline :: "data_info \<Rightarrow> data_info \<times> 'a option"

text \<open>
  \<open>get_classes\<close>. The module never imports \<open>mmcv\<close>, so the branch for a string raises
  NameError when it reaches \<open>mmcv.list_from_file\<close>. \<open>cls_CLASSES\<close> is the class
  attribute \<open>cls.CLASSES\<close>.
\<close>

fun get_classes :: "pyval \<Rightarrow> pyval \<Rightarrow> py_error + pyval" where
  "get_classes cls_CLASSES PyNone = Inr cls_CLASSES"
| "get_classes cls_CLASSES (PyStr s) = Inl (NameError ''mmcv'')"
| "get_classes cls_CLASSES (PyTuple xs) = Inr (PyTuple xs)"
| "get_classes cls_CLASSES (PyList xs) = Inr (PyList xs)"
| "get_classes cls_CLASSES v = Inl (ValueError_classes v)"

text \<open>\<open>os.path.isabs\<close> and \<open>os.path.join\<close> (POSIX) on two components.\<close>

definition isabs :: "string \<Rightarrow> bool" where
  "isabs s = (case s of [] \<Rightarrow> False | c # cs \<Rightarrow> c = CHR ''/'')"

definition join :: "string \<Rightarrow> string \<Rightarrow> string" where
  "join a b =
     (if isabs b then b
      else if a = [] \<or> last a = CHR ''/'' then a @ b
      else a @ ''/'' @ b)"

text \<open>The base class's \<open>load_annotations\<close>: \<open>pass\<close>, so it returns None.\<close>

definition load_annotations :: "string \<Rightarrow> py_error + data_info list option" where
  "load_annotations ann = Inr None"

text \<open>\<open>_filter_imgs\<close>: the loop over \<open>enumerate(self.data_infos)\<close>, then the method.\<close>

fun filter_loop :: "int \<Rightarrow> nat \<Rightarrow> data_info list \<Rightarrow> nat list \<Rightarrow> nat list" where
  "filter_loop min_size i [] valid_inds = valid_inds"
| "filter_loop min_size i (result # rest) valid_inds =
     filter_loop min_size (Suc i) rest
       (if min (width (img_info result)) (height (img_info result)) \<ge> min_size
        then valid_inds @ [i] else valid_inds)"

definition filter_imgs :: "'a CustomDataset \<Rightarrow> int \<Rightarrow> py_error + string list \<times> nat list" where
  "filter_imgs self min_size =
     (case data_infos self of
        None \<Rightarrow> Inl (TypeError ''NoneType object is not iterable'')
      | Some infos \<Rightarrow>
          Inr (if filter_empty_gt self
               then [''CustomDataset does not support filtering empty gt images.'']
               else [],
               filter_loop min_size 0 infos []))"

text \<open>\<open>[self.data_infos[i] for i in valid_inds]\<close>\<close>

fun select :: "'b list \<Rightarrow> nat list \<Rightarrow> py_error + 'b list" where
  "select xs [] = Inr []"
| "select xs (i # inds) =
     (if i < length xs
      then (case select xs inds of Inl e \<Rightarrow> Inl e | Inr ys \<Rightarrow> Inr (xs ! i # ys))
      else Inl IndexError)"

text \<open>
  \<open>__init__\<close>. \<open>load\<close> is the \<open>load_annotations\<close> of the class being constructed (a
  subclass overrides it); the result carries the warnings emitted.
\<close>

definition CustomDataset_init ::
  "(string \<Rightarrow> py_error + data_info list option) \<Rightarrow> pyval \<Rightarrow>
   string \<Rightarrow> (data_info \<Rightarrow> data_info \<times> 'a option) \<Rightarrow> pyval \<Rightarrow> string option \<Rightarrow> string option \<Rightarrow>
   bool \<Rightarrow> bool \<Rightarrow> py_error + 'a CustomDataset \<times> string list" where
  "CustomDataset_init load cls_CLASSES ann pipe classes root prefix tmode fegt =
     (case get_classes cls_CLASSES classes of
        Inl e \<Rightarrow> Inl e
      | Inr class_names \<Rightarrow>
          (let ann' = (case root of None \<Rightarrow> ann
                       | Some d \<Rightarrow> if \<not> isabs ann then join d ann else ann);
               prefix' = (case root of None \<Rightarrow> prefix
                          | Some d \<Rightarrow>
                              (case prefix of None \<Rightarrow> None
                               | Some p \<Rightarrow> if isabs p then Some p else Some (join d p)))
           in case load ann' of
                Inl e \<Rightarrow> Inl e
              | Inr infos \<Rightarrow>
                  (let self = \<lparr>ann_file = ann', data_root = root, img_prefix = prefix',
                              test_mode = tmode, filter_empty_gt = fegt,
                              CLASSES = class_names, data_infos = infos, pipeline = pipe\<rparr>
                   in if \<not> tmode then
                        (case filter_imgs self 32 of
                           Inl e \<Rightarrow> Inl e
                         | Inr (warns, valid_inds) \<Rightarrow>
                             (case infos of
                                None \<Rightarrow> Inl (TypeError ''NoneType object is not subscriptable'')
                              | Some xs \<Rightarrow>
                                  (case select xs valid_inds of
                                     Inl e \<Rightarrow> Inl e
                                   | Inr kept \<Rightarrow> Inr (self\<lparr>data_infos := Some kept\<rparr>, warns))))
                      else Inr (self, []))))"

definition len :: "'a CustomDataset \<Rightarrow> py_error + nat" where
  "len self =
     (case data_infos self of
        None \<Rightarrow> Inl (TypeError ''object of type NoneType has no len()'')
      | Some infos \<Rightarrow> Inr (length infos))"

definition get_global_metas :: "'a CustomDataset \<Rightarrow> (string \<times> pyval) list" where
  "get_global_metas self = [(''class'', CLASSES self)]"

definition pre_pipeline :: "'a CustomDataset \<Rightarrow> data_info \<Rightarrow> data_info" where
  "pre_pipeline self results =
     results\<lparr>key_img_prefix := Some (case img_prefix self of None \<Rightarrow> PyNone | Some p \<Rightarrow> PyStr p),
             key_bbox_fields := Some (PyList [])\<rparr>"

text \<open>
  What happens around a dataset while samples are fetched: \<open>rng\<close> is the sequence of raw
  draws of \<open>np.random\<close> and \<open>draws\<close> how many were taken; \<open>prepared\<close> lists the indices of
  the records the pipeline was run on, in order.
\<close>

record fetch_state =
  rng :: "nat \<Rightarrow> nat"
  draws :: nat
  prepared :: "nat list"

text \<open>\<open>_rand_another\<close>: \<open>np.random.choice(len(self))\<close> raises ValueError on 0.\<close>

definition rand_another ::
  "'a CustomDataset \<Rightarrow> fetch_state \<Rightarrow> int \<Rightarrow> py_error + int \<times> fetch_state" where
  "rand_another self s idx =
     (case len self of
        Inl e \<Rightarrow> Inl e
      | Inr n \<Rightarrow>
          if n = 0 then Inl ValueError_choice
          else Inr (int (rng s (draws s) mod n), s\<lparr>draws := draws s + 1\<rparr>))"

text \<open>
  \<open>prepare_img\<close>: \<open>results\<close> is the stored record itself, not a copy, so what
  \<open>pre_pipeline\<close> and the pipeline write lands in \<open>self.data_infos[idx]\<close>. A negative
  index counts from the end.
\<close>

definition prepare_img ::
  "'a CustomDataset \<Rightarrow> fetch_state \<Rightarrow> int \<Rightarrow>
   py_error + 'a option \<times> 'a CustomDataset \<times> fetch_state" where
  "prepare_img self s idx =
     (case data_infos self of
        None \<Rightarrow> Inl (TypeError ''NoneType object is not subscriptable'')
      | Some infos \<Rightarrow>
          (let n = int (length infos);
               j = (if idx < 0 then idx + n else idx)
           in if 0 \<le> j \<and> j < n then
                (let results = pre_pipeline self (infos ! nat j);
                     out = pipeline self results
                 in Inr (snd out,
                         self\<lparr>data_infos := Some (infos[nat j := fst out])\<rparr>,
                         s\<lparr>prepared := prepared s @ [nat j]\<rparr>))
              else Inl IndexError))"

text \<open>\<open>__getitem__\<close>: the \<open>while True\<close> loop of training mode, then the method.\<close>

partial_function (option) getitem_loop ::
  "'a CustomDataset \<Rightarrow> fetch_state \<Rightarrow> int \<Rightarrow>
   (py_error + 'a option \<times> 'a CustomDataset \<times> fetch_state) option" where
  "getitem_loop self s idx =
     (case prepare_img self s idx of
        Inl e \<Rightarrow> Some (Inl e)
      | Inr (data, self', s') \<Rightarrow>
          (case data of
             None \<Rightarrow>
               (case rand_another self' s' idx of
                  Inl e \<Rightarrow> Some (Inl e)
                | Inr (idx', s'') \<Rightarrow> getitem_loop self' s'' idx')
           | Some d \<Rightarrow> Some (Inr (Some d, self', s'))))"

definition getitem ::
  "'a CustomDataset \<Rightarrow> fetch_state \<Rightarrow> int \<Rightarrow>
   (py_error + 'a option \<times> 'a CustomDataset \<times> fetch_state) option" where
  "getitem self s idx =
     (if test_mode self then Some (prepare_img self s idx)
      else getitem_loop self s idx)"

text \<open>
  One preparation of a record \<open>r\<close>: what it leaves in the store in place of \<open>r\<close>, and the
  sample it returns.
\<close>

definition written_back :: "'a CustomDataset \<Rightarrow> data_info \<Rightarrow> data_info" where
  "written_back self r = fst (pipeline self (pre_pipeline self r))"

definition sample :: "'a CustomDataset \<Rightarrow> data_info \<Rightarrow> 'a option" where
  "sample self r = snd (pipeline self (pre_pipeline self r))"

text \<open>
  Python's list index: a negative index counts from the end (as in \<open>prepare_img\<close>).
  \<open>write_back\<close> is the store after the record at \<open>j\<close> has been prepared once.
\<close>

definition py_index :: "nat \<Rightarrow> int \<Rightarrow> nat" where
  "py_index n idx = nat (if idx < 0 then idx + int n else idx)"

definition write_back :: "'a CustomDataset \<Rightarrow> data_info list \<Rightarrow> nat \<Rightarrow> data_info list" where
  "write_back self infos j = infos[j := written_back self (infos ! j)]"

text \<open>
  What a fetch from \<open>(self, s)\<close> at \<open>idx\<close> leaves, used in the proofs: it prepared the
  record at \<open>idx\<close> and then the records \<open>new\<close>, each one written back in turn, and
  assigned nothing else of the dataset.
\<close>

definition fetched ::
  "'a CustomDataset \<Rightarrow> fetch_state \<Rightarrow> int \<Rightarrow> 'a CustomDataset \<Rightarrow> fetch_state \<Rightarrow> bool" where
  "fetched self s idx self' s' =
     (\<forall>infos. data_infos self = Some infos \<longrightarrow>
        (\<exists>new. s' = s\<lparr>draws := draws s', prepared := prepared s @ py_index (length infos) idx # new\<rparr> \<and>
               py_index (length infos) idx < length infos \<and>
               (\<forall>j \<in> set new. j < length infos) \<and>
               self' = self\<lparr>data_infos :=
                  Some (foldl (write_back self) infos (py_index (length infos) idx # new))\<rparr>))"

section \<open>Concrete objects for the examples\<close>

definition heap0 :: "nat \<Rightarrow> runner" where
  "heap0 a = \<lparr>iter = 9, max_iter = 100, epoch = 0, max_epoch = 10, storage = []\<rparr>"

definition world0 :: world where
  "world0 = \<lparr>runners = heap0, evals = [], barriers = 0\<rparr>"

definition bad_metrics :: "nat \<Rightarrow> pyval" where
  "bad_metrics n = PyDict [(''bbox'', PyDict [(''mAP'', PyStr ''not-a-number'')])]"

definition str_metrics :: "nat \<Rightarrow> pyval" where
  "str_metrics n = PyDict [(''bbox'', PyDict [(''mAP'', PyStr ''0.5'')])]"

definition no_metrics :: "nat \<Rightarrow> pyval" where
  "no_metrics n = PyNone"

text \<open>
  A constructed hook on which \<open>self.runner\<close> has been set to runner \<open>r\<close>, and nothing
  else.
\<close>

definition runner_hook :: "(nat \<Rightarrow> pyval) \<Rightarrow> bool \<Rightarrow> int \<Rightarrow> nat \<Rightarrow> EvalHook" where
  "runner_hook f b p r = (EvalHook_init f b p)\<lparr>self_runner := Some r\<rparr>"

definition info :: "string \<Rightarrow> int \<Rightarrow> int \<Rightarrow> data_info" where
  "info name w h =
     \<lparr>img_info = \<lparr>filename = name, width = w, height = h\<rparr>, ann_info = PyNone,
      key_img_prefix = None, key_bbox_fields = None\<rparr>"

definition load_three :: "string \<Rightarrow> py_error + data_info list option" where
  "load_three ann =
     Inr (Some [info ''a.jpg'' 640 480, info ''b.jpg'' 16 480, info ''c.jpg'' 32 32])"

definition keep_all :: "data_info \<Rightarrow> data_info \<times> string option" where
  "keep_all r = (r, Some (filename (img_info r)))"

definition reject_all :: "data_info \<Rightarrow> data_info \<times> string option" where
  "reject_all r = (r, None)"

definition reject_a :: "data_info \<Rightarrow> data_info \<times> string option" where
  "reject_a r =
     (r, if filename (img_info r) = ''a.jpg'' then None else Some (filename (img_info r)))"

definition dataset_of ::
  "(data_info \<Rightarrow> data_info \<times> string option) \<Rightarrow> bool \<Rightarrow> data_info list \<Rightarrow> string CustomDataset"
where
  "dataset_of pipe tmode infos =
     \<lparr>ann_file = ''ann.json'', data_root = None, img_prefix = Some ''imgs/'',
      test_mode = tmode, filter_empty_gt = True, CLASSES = PyNone,
      data_infos = Some infos, pipeline = pipe\<rparr>"

definition draws_0_0_2 :: "nat \<Rightarrow> nat" where
  "draws_0_0_2 n = (if n < 2 then 0 else 2)"

definition fetch0 :: fetch_state where
  "fetch0 = \<lparr>rng = draws_0_0_2, draws = 0, prepared = []\<rparr>"

section \<open>The evaluation hook: what is proved\<close>

lemmas str_defs = float_of_str_ok_def decimal_literal_def strip_def skip_sign_def is_digit_def
  is_space_def is_sign_def exponent_ok_def inf_or_nan_def lower_def to_ascii_def Let_def

lemmas example_defs = runner_hook_def EvalHook_init_def world0_def heap0_def

text \<open>
  \<open>float\<close> on some strings: U+00A0 and U+0085 are stripped, the character 28 is not, a
  letter beyond ASCII and a misplaced underscore are refused.
\<close>

lemma float_of_str_ok_examples:
  "float_of_str_ok [CHR 0xA0, CHR ''1'']"
  "float_of_str_ok [CHR 0x85, CHR ''1'', CHR 0x0A]"
  "\<not> float_of_str_ok [CHR 0x1C, CHR ''1'']"
  "\<not> float_of_str_ok [CHR ''1'', CHR 0xE9]"
  "float_of_str_ok '' -1_000.5e+3 ''"
  "\<not> float_of_str_ok ''1_e5''"
  "\<not> float_of_str_ok []"
  by (simp_all add: str_defs)

lemma float_of_str_ok_infinity: "float_of_str_ok ''-Infinity''"
  by code_simp

lemma coerce_loop_None: "coerce_loop kvs = None \<longleftrightarrow> (\<forall>(k, v) \<in> set kvs. float_ok v)"
  by (induction kvs rule: coerce_loop.induct) auto

lemma coerce_loop_Some:
  "coerce_loop kvs = Some e \<Longrightarrow>
   \<exists>k v. e = ValueError_eval k v \<and> (k, v) \<in> set kvs \<and> \<not> float_ok v"
  by (induction kvs rule: coerce_loop.induct) (auto split: if_splits)

text \<open>
  C1. The handler does not gate on the runner that the event passes: it reads
  \<open>self.runner\<close>, which \<open>__init__\<close> does not set. On the hook as constructed with
  \<open>by_epoch\<close> false, ``after a validation iteration'' therefore raises AttributeError and
  the callback is not called, whatever the counters of the enclosing runner are; for
  instance with period 5, \<open>iter = 9\<close> and \<open>max_iter = 100\<close>, where the condition of the
  claim holds.
\<close>

theorem after_val_iter_reads_unset_runner:
  "after_val_iter fl (EvalHook_init f False p) r w = Raised (AttributeError ''runner'') w"
  by (simp add: after_val_iter_def EvalHook_init_def)

text \<open>
  When something has set \<open>self.runner\<close>, to a runner \<open>sr\<close>, the counters that gate the
  call are those of \<open>sr\<close>, and the runner \<open>r\<close> of the event is only handed to \<open>_do_eval\<close>.
\<close>

lemma after_val_iter_gates_on_self_runner:
  assumes "\<not> by_epoch h" and "func h = Some f" and "self_runner h = Some sr"
  shows "evals (state_of (after_val_iter fl h r w)) =
           (if period h > 0 \<and> (iter (runners w sr) + 1) mod period h = 0 \<and>
               iter (runners w sr) + 1 \<noteq> max_iter (runners w sr)
            then evals w @ [(iter (runners w r), epoch (runners w r))]
            else evals w)"
  using assms
  by (auto simp: after_val_iter_def do_eval_def Let_def put_scalars_def synchronize_def
      split: pyval.splits option.splits)

text \<open>
  C3. When the callback returns a non-empty dict and some flattened value cannot be
  coerced to float, the pass raises the ValueError that carries an offending flattened
  key and its value, the store of every runner is as before, and the barrier is not
  reached.
\<close>

theorem do_eval_rejects_non_float:
  assumes "func h = Some f" and "f (length (evals w)) = PyDict d" and "d \<noteq> []"
    and "\<exists>(k, v) \<in> set (fl (PyDict d)). \<not> float_ok v"
  shows "\<exists>k v. (k, v) \<in> set (fl (PyDict d)) \<and> \<not> float_ok v \<and>
           raised (do_eval fl h r w) = Some (ValueError_eval k v) \<and>
           runners (state_of (do_eval fl h r w)) = runners w \<and>
           barriers (state_of (do_eval fl h r w)) = barriers w"
proof -
  from assms(4) have "coerce_loop (fl (PyDict d)) \<noteq> None"
    by (auto simp: coerce_loop_None)
  then obtain e where e: "coerce_loop (fl (PyDict d)) = Some e" by auto
  from coerce_loop_Some[OF e] obtain k v where
    kv: "e = ValueError_eval k v" "(k, v) \<in> set (fl (PyDict d))" "\<not> float_ok v" by blast
  have "do_eval fl h r w =
          Raised e (w\<lparr>evals := evals w @ [(iter (runners w r), epoch (runners w r))]\<rparr>)"
    using assms(1,2,3) e by (simp add: do_eval_def Let_def)
  with kv show ?thesis by auto
qed

theorem do_eval_rejects_non_float_witness:
  "raised (do_eval (flatten_results_dict ''/'') (EvalHook_init bad_metrics True 2) 0 world0)
     = Some (ValueError_eval ''bbox/mAP'' (PyStr ''not-a-number'')) \<and>
   storage (runners (state_of (do_eval (flatten_results_dict ''/'')
                                 (EvalHook_init bad_metrics True 2) 0 world0)) 0) = []"
  using do_eval_rejects_non_float[of "EvalHook_init bad_metrics True 2" bad_metrics world0
      "[(''bbox'', PyDict [(''mAP'', PyStr ''not-a-number'')])]" "flatten_results_dict ''/''" 0]
  by (simp add: example_defs bad_metrics_def str_defs)

text \<open>
  C4, as the spec states it, fails: with the callback returning
  \<open>{"bbox": {"mAP": "0.5"}}\<close> the value coerces to float, and the store receives the
  string itself, which is not a float.
\<close>

theorem do_eval_publishes_unconverted:
  "float_ok (PyStr ''0.5'') \<and>
   storage (runners (state_of (do_eval (flatten_results_dict ''/'')
                                 (EvalHook_init str_metrics True 2) 0 world0)) 0)
     = [([(''bbox/mAP'', PyStr ''0.5'')], False)] \<and>
   \<not> all_floats (storage (runners (state_of (do_eval (flatten_results_dict ''/'')
                                 (EvalHook_init str_metrics True 2) 0 world0)) 0))"
  by (simp add: do_eval_def Let_def put_scalars_def synchronize_def
       example_defs str_metrics_def str_defs)

text \<open>
  C4, amended. When the callback returns a non-empty dict whose flattened values all
  coerce to float, the pass publishes the flattened values themselves, as the callback
  returned them, in one call with the smoothing hint False, and then reaches the barrier;
  unless a flattened key is \<open>smoothing_hint\<close>, in which case the call raises TypeError and
  nothing is published.
\<close>

theorem do_eval_publishes_flattened:
  assumes "func h = Some f" and "f (length (evals w)) = PyDict d" and "d \<noteq> []"
    and "\<forall>(k, v) \<in> set (fl (PyDict d)). float_ok v"
  shows "do_eval fl h r w =
           (if ''smoothing_hint'' \<in> fst ` set (fl (PyDict d))
            then Raised (TypeError ''smoothing_hint'')
                   (w\<lparr>evals := evals w @ [(iter (runners w r), epoch (runners w r))]\<rparr>)
            else Done (w\<lparr>evals := evals w @ [(iter (runners w r), epoch (runners w r))],
                         runners := (runners w)(r := (runners w r)
                            \<lparr>storage := storage (runners w r) @ [(fl (PyDict d), False)]\<rparr>),
                         barriers := barriers w + 1\<rparr>))"
proof -
  from assms(4) have "coerce_loop (fl (PyDict d)) = None"
    by (simp add: coerce_loop_None)
  then show ?thesis
    using assms(1,2,3) by (simp add: do_eval_def Let_def put_scalars_def synchronize_def)
qed

theorem do_eval_publishes_flattened_witness:
  "do_eval (flatten_results_dict ''/'') (EvalHook_init str_metrics True 2) 0 world0 =
     Done \<lparr>runners = heap0(0 := (heap0 0)\<lparr>storage := [([(''bbox/mAP'', PyStr ''0.5'')], False)]\<rparr>),
           evals = [(9, 0)], barriers = 1\<rparr>"
  using do_eval_publishes_flattened[of "EvalHook_init str_metrics True 2" str_metrics world0
      "[(''bbox'', PyDict [(''mAP'', PyStr ''0.5'')])]" "flatten_results_dict ''/''" 0]
  by (simp add: example_defs str_metrics_def str_defs)

text \<open>
  C2. A hook with \<open>by_epoch\<close> true and period 2 whose \<open>self.runner\<close> is the enclosing
  runner, with \<open>max_epoch = 10\<close>. ``After a validation epoch'' fires with the epoch
  counter at 0, ..., 9 (epochs 1 to 10): the callback runs once each at counters 1, 3, 5,
  7, that is after epochs 2, 4, 6, 8, and not at counter 9. ``After run completes'' then
  reads \<open>self.trainer\<close>, an attribute that nothing sets (every other read is of
  \<open>self.runner\<close>), and raises AttributeError: the callback is not run after epoch 10, and
  it is not deleted.
\<close>

theorem by_epoch_run_misses_final_eval:
  "val_epochs (flatten_results_dict ''/'') (runner_hook no_metrics True 2 0) 0 (map int [0..<10]) world0
     = Done \<lparr>runners = heap0(0 := (heap0 0)\<lparr>epoch := 9\<rparr>),
             evals = [(9, 1), (9, 3), (9, 5), (9, 7)], barriers = 4\<rparr> \<and>
   after_run fl (runner_hook f True p r) r w
     = Raised (AttributeError ''trainer'') (runner_hook f True p r, w)"
proof
  show "val_epochs (flatten_results_dict ''/'') (runner_hook no_metrics True 2 0) 0 (map int [0..<10]) world0
     = Done \<lparr>runners = heap0(0 := (heap0 0)\<lparr>epoch := 9\<rparr>),
             evals = [(9, 1), (9, 3), (9, 5), (9, 7)], barriers = 4\<rparr>"
    by (simp add: upt_rec runner_hook_def EvalHook_init_def world0_def heap0_def no_metrics_def
        after_val_epoch_def do_eval_def set_epoch_def synchronize_def Let_def)
  show "after_run fl (runner_hook f True p r) r w
     = Raised (AttributeError ''trainer'') (runner_hook f True p r, w)"
    by (simp add: after_run_def runner_hook_def EvalHook_init_def)
qed

section \<open>The dataset: what is proved\<close>

text \<open>
  C5. For a string, \<open>get_classes\<close> does not read any file: it raises NameError, since
  \<open>mmcv\<close> is not imported. (None gives the class default, a tuple or list is returned as
  it is, any other type raises ValueError: these are the equations of \<open>get_classes\<close>.)
\<close>

theorem get_classes_str_raises_NameError:
  "get_classes cls_CLASSES (PyStr path) = Inl (NameError ''mmcv'')"
  by simp

lemma filter_loop_eq:
  "filter_loop m i ys acc =
     acc @ map fst (filter (\<lambda>(j, r). m \<le> min (width (img_info r)) (height (img_info r)))
                      (enumerate i ys))"
  by (induction ys arbitrary: i acc) simp_all

lemma select_enumerate:
  "length pre = i \<Longrightarrow>
   select (pre @ ys) (map fst (filter (\<lambda>(j, r). P r) (enumerate i ys))) = Inr (filter P ys)"
proof (induction ys arbitrary: i pre)
  case Nil
  show ?case by simp
next
  case (Cons y ys)
  have "select ((pre @ [y]) @ ys) (map fst (filter (\<lambda>(j, r). P r) (enumerate (Suc i) ys)))
          = Inr (filter P ys)"
    using Cons.prems by (intro Cons.IH) simp
  then show ?case using Cons.prems by (simp add: nth_append)
qed

lemma select_filter_loop:
  "select xs (filter_loop m 0 xs []) =
     Inr (filter (\<lambda>r. m \<le> min (width (img_info r)) (height (img_info r))) xs)"
  using select_enumerate[where pre = "[]" and i = 0 and ys = xs
      and P = "\<lambda>r. m \<le> min (width (img_info r)) (height (img_info r))"]
  by (simp add: filter_loop_eq)

text \<open>
  C6. When the constructor returns with \<open>test_mode\<close> false, the loader returned a list and
  the retained records are exactly the loaded records with \<open>min(width, height) \<ge> 32\<close>, in
  the order in which they were loaded.
\<close>

theorem init_keeps_large_images_in_order:
  assumes "CustomDataset_init load c ann pipe classes root prefix False fegt = Inr (self, warns)"
  shows "\<exists>loaded. load (ann_file self) = Inr (Some loaded) \<and>
           data_infos self =
             Some (filter (\<lambda>r. 32 \<le> min (width (img_info r)) (height (img_info r))) loaded)"
  using assms
  by (auto simp: CustomDataset_init_def Let_def filter_imgs_def select_filter_loop
      split: sum.splits option.splits)

theorem init_keeps_large_images_in_order_witness:
  "CustomDataset_init load_three PyNone ''ann.json'' keep_all PyNone None (Some ''imgs/'') False True
     = Inr (dataset_of keep_all False [info ''a.jpg'' 640 480, info ''c.jpg'' 32 32],
            [''CustomDataset does not support filtering empty gt images.'']) \<and>
   data_infos (dataset_of keep_all False [info ''a.jpg'' 640 480, info ''c.jpg'' 32 32])
     = Some [info ''a.jpg'' 640 480, info ''c.jpg'' 32 32]"
  using init_keeps_large_images_in_order[of load_three PyNone "''ann.json''" keep_all PyNone None
      "Some ''imgs/''" True "dataset_of keep_all False [info ''a.jpg'' 640 480, info ''c.jpg'' 32 32]"
      "[''CustomDataset does not support filtering empty gt images.'']"]
  by (simp add: CustomDataset_init_def filter_imgs_def load_three_def dataset_of_def info_def Let_def)

text \<open>
  C10. Constructing the base class, whose \<open>load_annotations\<close> returns None, with
  \<open>test_mode\<close> false always raises: the error of \<open>get_classes\<close> if that fails, and
  otherwise the TypeError of iterating over None in \<open>_filter_imgs\<close>.
\<close>

theorem init_base_loader_fails:
  "CustomDataset_init load_annotations c ann pipe classes root prefix False fegt =
     (case get_classes c classes of
        Inl e \<Rightarrow> Inl e
      | Inr names \<Rightarrow> Inl (TypeError ''NoneType object is not iterable''))"
  by (simp add: CustomDataset_init_def load_annotations_def filter_imgs_def Let_def
      split: sum.splits)

text \<open>
  C7. In test mode, for an index in range, \<open>get\<close> runs the pipeline once, on the record
  at that index (after \<open>pre_pipeline\<close>), and returns what the pipeline returned, be it
  None; no random index is drawn.
\<close>

theorem getitem_test_mode_once:
  assumes "test_mode self" and "data_infos self = Some infos"
    and "0 \<le> i" and "i < int (length infos)"
  shows "getitem self s i =
           Some (Inr (snd (pipeline self (pre_pipeline self (infos ! nat i))),
                      self\<lparr>data_infos :=
                        Some (infos[nat i := fst (pipeline self (pre_pipeline self (infos ! nat i)))])\<rparr>,
                      s\<lparr>prepared := prepared s @ [nat i]\<rparr>))"
  using assms by (simp add: getitem_def prepare_img_def Let_def)

theorem getitem_test_mode_once_witness:
  "getitem (dataset_of reject_all True [info ''a.jpg'' 640 480, info ''c.jpg'' 32 32]) fetch0 1 =
     Some (Inr (None,
       dataset_of reject_all True [info ''a.jpg'' 640 480,
          (info ''c.jpg'' 32 32)\<lparr>key_img_prefix := Some (PyStr ''imgs/''),
                                  key_bbox_fields := Some (PyList [])\<rparr>],
       fetch0\<lparr>prepared := [1]\<rparr>))"
  using getitem_test_mode_once[of "dataset_of reject_all True [info ''a.jpg'' 640 480, info ''c.jpg'' 32 32]"
      "[info ''a.jpg'' 640 480, info ''c.jpg'' 32 32]" 1 fetch0]
  by (simp add: dataset_of_def reject_all_def pre_pipeline_def fetch0_def)

lemma written_back_upd [simp]:
  "written_back (self\<lparr>data_infos := x\<rparr>) = written_back self"
  by (rule ext) (simp add: written_back_def pre_pipeline_def)

lemma sample_upd [simp]:
  "sample (self\<lparr>data_infos := x\<rparr>) = sample self"
  by (rule ext) (simp add: sample_def pre_pipeline_def)

lemma prepare_img_nat:
  assumes "data_infos self = Some infos" and "j < length infos"
  shows "prepare_img self s (int j) =
           Inr (sample self (infos ! j),
                self\<lparr>data_infos := Some (infos[j := written_back self (infos ! j)])\<rparr>,
                s\<lparr>prepared := prepared s @ [j]\<rparr>)"
  using assms by (simp add: prepare_img_def Let_def sample_def written_back_def)

lemma loop_valid:
  assumes "data_infos self = Some infos" and "j < length infos"
    and "sample self (infos ! j) = Some d"
  shows "getitem_loop self s (int j) =
           Some (Inr (Some d,
                self\<lparr>data_infos := Some (infos[j := written_back self (infos ! j)])\<rparr>,
                s\<lparr>prepared := prepared s @ [j]\<rparr>))"
  by (subst getitem_loop.simps) (simp add: prepare_img_nat[OF assms(1,2)] assms(3))

lemma loop_invalid:
  assumes "data_infos self = Some infos" and "j < length infos"
    and "sample self (infos ! j) = None"
  shows "getitem_loop self s (int j) =
           getitem_loop
             (self\<lparr>data_infos := Some (infos[j := written_back self (infos ! j)])\<rparr>)
             (s\<lparr>prepared := prepared s @ [j], draws := draws s + 1\<rparr>)
             (int (rng s (draws s) mod length infos))"
proof -
  have "length infos \<noteq> 0" using assms(2) by linarith
  then show ?thesis
    by (subst getitem_loop.simps)
       (simp add: prepare_img_nat[OF assms(1,2)] assms(3) rand_another_def len_def)
qed

lemma loop_retry:
  assumes "data_infos self = Some infos" and "2 \<le> length infos"
    and "\<forall>m. sample self ((written_back self ^^ m) (infos ! 0)) = None"
    and "\<forall>j. 0 < j \<and> j < length infos \<longrightarrow> sample self (infos ! j) \<noteq> None"
    and "\<forall>i<k. rng s (draws s + i) mod length infos = 0"
    and "rng s (draws s + k) mod length infos \<noteq> 0"
  shows "\<exists>d self' s'. getitem_loop self s 0 = Some (Inr (Some d, self', s')) \<and>
           Some d = sample self (infos ! (rng s (draws s + k) mod length infos)) \<and>
           rng s' = rng s \<and> draws s' = draws s + k + 1 \<and>
           prepared s' = prepared s @ replicate (k + 1) 0 @ [rng s (draws s + k) mod length infos]"
  using assms
proof (induction k arbitrary: self infos s)
  case 0
  let ?j = "rng s (draws s) mod length infos"
  let ?self1 = "self\<lparr>data_infos := Some (infos[0 := written_back self (infos ! 0)])\<rparr>"
  let ?s1 = "s\<lparr>prepared := prepared s @ [0], draws := draws s + 1\<rparr>"
  have l0: "0 < length infos" using "0.prems"(2) by linarith
  have bad0: "sample self (infos ! 0) = None" using "0.prems"(3)[rule_format, of 0] by simp
  have step: "getitem_loop self s 0 = getitem_loop ?self1 ?s1 (int ?j)"
    using loop_invalid[OF "0.prems"(1) l0 bad0, of s] by simp
  have j: "0 < ?j" "?j < length infos" using "0.prems"(6) l0 by auto
  from "0.prems"(4) j obtain d where d: "sample self (infos ! ?j) = Some d" by auto
  have d1: "data_infos ?self1 = Some (infos[0 := written_back self (infos ! 0)])" by simp
  have j1: "?j < length (infos[0 := written_back self (infos ! 0)])" using j by simp
  have v: "sample ?self1 ((infos[0 := written_back self (infos ! 0)]) ! ?j) = Some d"
    using d j by simp
  from loop_valid[OF d1 j1 v, of ?s1] step d
  show ?case by simp
next
  case (Suc k)
  let ?infos1 = "infos[0 := written_back self (infos ! 0)]"
  let ?self1 = "self\<lparr>data_infos := Some ?infos1\<rparr>"
  let ?s1 = "s\<lparr>prepared := prepared s @ [0], draws := draws s + 1\<rparr>"
  have l0: "0 < length infos" using Suc.prems(2) by linarith
  have bad0: "sample self (infos ! 0) = None" using Suc.prems(3)[rule_format, of 0] by simp
  have z: "rng s (draws s) mod length infos = 0" using Suc.prems(5)[rule_format, of 0] by simp
  have step: "getitem_loop self s 0 = getitem_loop ?self1 ?s1 0"
    using loop_invalid[OF Suc.prems(1) l0 bad0, of s] z by simp
  have p1: "data_infos ?self1 = Some ?infos1" by simp
  have p2: "2 \<le> length ?infos1" using Suc.prems(2) by simp
  have p3: "\<forall>m. sample ?self1 ((written_back ?self1 ^^ m) (?infos1 ! 0)) = None"
  proof
    fix m
    have "(written_back self ^^ m) (written_back self (infos ! 0))
            = (written_back self ^^ Suc m) (infos ! 0)"
      by (simp add: funpow_swap1)
    then show "sample ?self1 ((written_back ?self1 ^^ m) (?infos1 ! 0)) = None"
      using Suc.prems(3)[rule_format, of "Suc m"] l0 by simp
  qed
  have p4: "\<forall>j. 0 < j \<and> j < length ?infos1 \<longrightarrow> sample ?self1 (?infos1 ! j) \<noteq> None"
    using Suc.prems(4) by simp
  have p5: "\<forall>i<k. rng ?s1 (draws ?s1 + i) mod length ?infos1 = 0"
  proof (intro allI impI)
    fix i assume "i < k"
    then have "Suc i < Suc k" by simp
    from Suc.prems(5)[rule_format, OF this]
    have "rng s (draws s + Suc i) mod length infos = 0" .
    then show "rng ?s1 (draws ?s1 + i) mod length ?infos1 = 0" by simp
  qed
  have p6: "rng ?s1 (draws ?s1 + k) mod length ?infos1 \<noteq> 0"
    using Suc.prems(6) by simp
  from Suc.IH[OF p1 p2 p3 p4 p5 p6] obtain d self' s' where
    r: "getitem_loop ?self1 ?s1 0 = Some (Inr (Some d, self', s'))"
       "Some d = sample ?self1 (?infos1 ! (rng ?s1 (draws ?s1 + k) mod length ?infos1))"
       "rng s' = rng ?s1" "draws s' = draws ?s1 + k + 1"
       "prepared s' = prepared ?s1 @ replicate (k + 1) 0 @
          [rng ?s1 (draws ?s1 + k) mod length ?infos1]"
    by blast
  have nz: "rng s (draws s + Suc k) mod length infos \<noteq> 0" using Suc.prems(6) by simp
  have g: "getitem_loop self s 0 = Some (Inr (Some d, self', s'))"
    using step r(1) by simp
  have a: "Some d = sample self (infos ! (rng s (draws s + Suc k) mod length infos))"
    using r(2) nz by simp
  have b: "rng s' = rng s" using r(3) by simp
  have c: "draws s' = draws s + Suc k + 1" using r(4) by simp
  have e: "prepared s' = prepared s @ replicate (Suc k + 1) 0 @
          [rng s (draws s + Suc k) mod length infos]"
    using r(5) by simp
  show ?case using g a b c e by blast
qed

lemma prepare_None:
  "prepare_img self s idx = Inr r \<Longrightarrow> \<exists>infos. data_infos self = Some infos"
  by (auto simp: prepare_img_def split: option.splits)

lemma rand_another_state:
  "rand_another self s idx = Inr (idx', s') \<Longrightarrow> s' = s\<lparr>draws := draws s'\<rparr>"
  by (auto simp: rand_another_def split: sum.splits if_splits)

lemma write_back_upd [simp]:
  "write_back (self\<lparr>data_infos := x\<rparr>) = write_back self"
  by (intro ext) (simp add: write_back_def)

lemma length_write_back [simp]: "length (write_back self infos j) = length infos"
  by (simp add: write_back_def)

lemma length_foldl_write_back [simp]:
  "length (foldl (write_back self) infos new) = length infos"
  by (induction new arbitrary: infos) simp_all

lemma foldl_write_back_other:
  "j \<notin> set new \<Longrightarrow> foldl (write_back self) infos new ! j = infos ! j"
  by (induction new arbitrary: infos) (simp_all add: write_back_def)

lemma prepare_img_writes:
  assumes "prepare_img self s idx = Inr (out, self', s')" and "data_infos self = Some infos"
  shows "py_index (length infos) idx < length infos \<and>
         out = sample self (infos ! py_index (length infos) idx) \<and>
         self' = self\<lparr>data_infos := Some (write_back self infos (py_index (length infos) idx))\<rparr> \<and>
         s' = s\<lparr>prepared := prepared s @ [py_index (length infos) idx]\<rparr>"
  using assms
  by (auto simp: prepare_img_def Let_def py_index_def write_back_def written_back_def sample_def
      split: if_splits)

lemma getitem_loop_writes:
  assumes "getitem_loop self s idx = Some y"
  shows "\<forall>d self' s'. y = Inr (d, self', s') \<longrightarrow> fetched self s idx self' s'"
proof (rule getitem_loop.raw_induct[where P = "\<lambda>self s idx y.
         \<forall>d self' s'. y = Inr (d, self', s') \<longrightarrow> fetched self s idx self' s'", OF _ assms], goal_cases)
  case (1 loop self s idx y)
  show ?case
  proof (cases "prepare_img self s idx")
    case (Inl e)
    with 1(2) show ?thesis by auto
  next
    case (Inr res)
    obtain out self1 s1 where res: "res = (out, self1, s1)" by (cases res) auto
    obtain infos where infos: "data_infos self = Some infos"
      using prepare_None[OF Inr] by blast
    let ?j = "py_index (length infos) idx"
    from prepare_img_writes[OF Inr[unfolded res] infos] have
      pj: "?j < length infos"
      and p1: "self1 = self\<lparr>data_infos := Some (write_back self infos ?j)\<rparr>"
      and p2: "s1 = s\<lparr>prepared := prepared s @ [?j]\<rparr>" by auto
    show ?thesis
    proof (cases out)
      case (Some d)
      have "fetched self s idx self1 s1"
        unfolding fetched_def
      proof (intro allI impI)
        fix xs assume "data_infos self = Some xs"
        with infos have xs: "xs = infos" by simp
        show "\<exists>new. s1 = s\<lparr>draws := draws s1, prepared := prepared s @ py_index (length xs) idx # new\<rparr> \<and>
               py_index (length xs) idx < length xs \<and>
               (\<forall>j \<in> set new. j < length xs) \<and>
               self1 = self\<lparr>data_infos := Some (foldl (write_back self) xs (py_index (length xs) idx # new))\<rparr>"
          unfolding xs using pj by (intro exI[of _ "[]"]) (simp add: p1 p2)
      qed
      with 1(2) Inr res Some show ?thesis by auto
    next
      case None
      show ?thesis
      proof (cases "rand_another self1 s1 idx")
        case (Inl e)
        with 1(2) \<open>prepare_img self s idx = Inr res\<close> res None show ?thesis by auto
      next
        case (Inr nxt)
        obtain idx' s2 where nxt: "nxt = (idx', s2)" by (cases nxt) auto
        have st: "s2 = s1\<lparr>draws := draws s2\<rparr>"
          using rand_another_state Inr nxt by blast
        have rec: "loop self1 s2 idx' = Some y"
          using 1(2) \<open>prepare_img self s idx = Inr res\<close> res None Inr nxt by simp
        from 1(1)[OF rec] have
          f2: "\<forall>d self' s'. y = Inr (d, self', s') \<longrightarrow> fetched self1 s2 idx' self' s'" .
        show ?thesis
        proof (intro allI impI)
          fix d self' s' assume "y = Inr (d, self', s')"
          with f2 have f: "fetched self1 s2 idx' self' s'" by blast
          have d1: "data_infos self1 = Some (write_back self infos ?j)" using p1 by simp
          let ?k = "py_index (length infos) idx'"
          from f[unfolded fetched_def, rule_format, OF d1] obtain new where
            n1: "s' = s2\<lparr>draws := draws s', prepared := prepared s2 @ ?k # new\<rparr>"
            and n2: "\<forall>j \<in> set new. j < length infos"
            and n4: "?k < length infos"
            and n3: "self' = self1\<lparr>data_infos :=
                  Some (foldl (write_back self1) (write_back self infos ?j) (?k # new))\<rparr>"
            by auto
          have kk: "?k < length infos"
          proof -
            from Inr nxt have "idx' = int (rng s1 (draws s1) mod length infos)" "length infos \<noteq> 0"
              using p1 by (auto simp: rand_another_def len_def split: if_splits)
            then show ?thesis by (simp add: py_index_def)
          qed
          have st': "s2 = s1\<lparr>draws := draws s1 + 1\<rparr>"
            using Inr nxt by (auto simp: rand_another_def split: sum.splits if_splits)
          have "s2\<lparr>draws := draws s', prepared := prepared s2 @ ?k # new\<rparr> =
                s\<lparr>draws := draws s', prepared := prepared s @ ?j # (?k # new)\<rparr>"
            by (simp add: st' p2)
          with n1 have s'eq:
            "s' = s\<lparr>draws := draws s', prepared := prepared s @ ?j # (?k # new)\<rparr>"
            by (rule trans)
          have self'eq: "self' = self\<lparr>data_infos :=
                  Some (foldl (write_back self) infos (?j # (?k # new)))\<rparr>"
            using n3 by (simp add: p1)
          show "fetched self s idx self' s'"
            unfolding fetched_def
          proof (intro allI impI)
            fix xs assume "data_infos self = Some xs"
            with infos have xs: "xs = infos" by simp
            show "\<exists>new. s' = s\<lparr>draws := draws s', prepared := prepared s @ py_index (length xs) idx # new\<rparr> \<and>
               py_index (length xs) idx < length xs \<and>
               (\<forall>j \<in> set new. j < length xs) \<and>
               self' = self\<lparr>data_infos := Some (foldl (write_back self) xs (py_index (length xs) idx # new))\<rparr>"
              unfolding xs
              apply (rule exI[of _ "?k # new"])
              using s'eq self'eq n2 kk pj by auto
          qed
        qed
      qed
    qed
  qed
qed

text \<open>
  C8, amended. A fetch assigns no attribute of the dataset. It prepares the record at the
  index first (a negative index counting from the end) and, in training mode, further
  records after each rejected sample; in test mode only the record at the index. Every
  preparation writes the stored record in place: it becomes what \<open>pre_pipeline\<close> (which
  sets \<open>img_prefix\<close> and \<open>bbox_fields\<close> on it) and then the pipeline leave of it. Every
  stored record that is not prepared is as before. (The entries of \<open>data_infos\<close> are
  distinct objects here.)
\<close>

theorem getitem_writes_prepared_records:
  assumes "getitem self s idx = Some (Inr (d, self', s'))" and "data_infos self = Some infos"
  shows "\<exists>new.
           prepared s' = prepared s @ py_index (length infos) idx # new \<and>
           py_index (length infos) idx < length infos \<and>
           (\<forall>j \<in> set new. j < length infos) \<and>
           (test_mode self \<longrightarrow> new = []) \<and>
           self' = self\<lparr>data_infos :=
              Some (foldl (write_back self) infos (py_index (length infos) idx # new))\<rparr> \<and>
           (\<forall>j. j \<notin> set (py_index (length infos) idx # new) \<longrightarrow>
              foldl (write_back self) infos (py_index (length infos) idx # new) ! j = infos ! j)"
proof (cases "test_mode self")
  case True
  with assms(1) have "prepare_img self s idx = Inr (d, self', s')"
    by (simp add: getitem_def)
  from prepare_img_writes[OF this assms(2)] True show ?thesis
    by (intro exI[of _ "[]"]) (simp add: write_back_def)
next
  case False
  with assms(1) have "getitem_loop self s idx = Some (Inr (d, self', s'))"
    by (simp add: getitem_def)
  from getitem_loop_writes[OF this] have "fetched self s idx self' s'" by blast
  with assms(2) obtain new where
    f: "s' = s\<lparr>draws := draws s', prepared := prepared s @ py_index (length infos) idx # new\<rparr>"
       "py_index (length infos) idx < length infos"
       "\<forall>j \<in> set new. j < length infos"
       "self' = self\<lparr>data_infos :=
              Some (foldl (write_back self) infos (py_index (length infos) idx # new))\<rparr>"
    unfolding fetched_def by blast
  have p: "prepared s' = prepared s @ py_index (length infos) idx # new"
    by (subst f(1)) simp
  have o: "\<forall>j. j \<notin> set (py_index (length infos) idx # new) \<longrightarrow>
              foldl (write_back self) infos (py_index (length infos) idx # new) ! j = infos ! j"
    using foldl_write_back_other by blast
  show ?thesis
    using p f(2,3,4) o False by (intro exI[of _ new]) blast
qed

theorem getitem_writes_prepared_records_witness:
  "getitem (dataset_of keep_all True [info ''a.jpg'' 640 480, info ''c.jpg'' 32 32]) fetch0 (- 1) =
     Some (Inr (Some ''c.jpg'',
       dataset_of keep_all True
         [info ''a.jpg'' 640 480,
          (info ''c.jpg'' 32 32)\<lparr>key_img_prefix := Some (PyStr ''imgs/''),
                                   key_bbox_fields := Some (PyList [])\<rparr>],
       fetch0\<lparr>prepared := [1]\<rparr>)) \<and>
   py_index 2 (- 1) = 1"
  using getitem_writes_prepared_records[of
      "dataset_of keep_all True [info ''a.jpg'' 640 480, info ''c.jpg'' 32 32]" fetch0 "- 1"
      "Some ''c.jpg''"
      "dataset_of keep_all True
         [info ''a.jpg'' 640 480,
          (info ''c.jpg'' 32 32)\<lparr>key_img_prefix := Some (PyStr ''imgs/''),
                                   key_bbox_fields := Some (PyList [])\<rparr>]"
      "fetch0\<lparr>prepared := [1]\<rparr>" "[info ''a.jpg'' 640 480, info ''c.jpg'' 32 32]"]
  by (simp add: getitem_def prepare_img_def dataset_of_def keep_all_def pre_pipeline_def
      fetch0_def info_def Let_def written_back_def py_index_def)

text \<open>
  C8, as the spec states it, fails: on the dataset that the constructor returns in test
  mode for three loaded records, \<open>get(0)\<close> leaves the stored record 0 with the keys
  \<open>img_prefix\<close> and \<open>bbox_fields\<close> set, which it did not have, although the pipeline here
  changes nothing.
\<close>

theorem getitem_writes_stored_record:
  "CustomDataset_init load_three PyNone ''ann.json'' keep_all PyNone None (Some ''imgs/'') True True
     = Inr (dataset_of keep_all True
              [info ''a.jpg'' 640 480, info ''b.jpg'' 16 480, info ''c.jpg'' 32 32], []) \<and>
   getitem (dataset_of keep_all True
              [info ''a.jpg'' 640 480, info ''b.jpg'' 16 480, info ''c.jpg'' 32 32]) fetch0 0
     = Some (Inr (Some ''a.jpg'',
         dataset_of keep_all True
           [(info ''a.jpg'' 640 480)\<lparr>key_img_prefix := Some (PyStr ''imgs/''),
                                     key_bbox_fields := Some (PyList [])\<rparr>,
            info ''b.jpg'' 16 480, info ''c.jpg'' 32 32],
         fetch0\<lparr>prepared := [0]\<rparr>)) \<and>
   (info ''a.jpg'' 640 480)\<lparr>key_img_prefix := Some (PyStr ''imgs/''),
                             key_bbox_fields := Some (PyList [])\<rparr> \<noteq> info ''a.jpg'' 640 480"
  by (simp add: CustomDataset_init_def load_three_def getitem_def prepare_img_def dataset_of_def
      keep_all_def pre_pipeline_def fetch0_def info_def Let_def)

text \<open>
  C9. In training mode, with at least two records, a pipeline that rejects record 0 every
  time it is prepared and accepts every other record, and a sequence of draws that gives
  index 0 \<open>k\<close> times and then a valid index: \<open>get(0)\<close> returns, after \<open>k + 1\<close> draws, the
  sample of the record at the drawn index.
\<close>

theorem getitem_retries_until_valid:
  assumes "\<not> test_mode self" and "data_infos self = Some infos" and "2 \<le> length infos"
    and "\<forall>m. sample self ((written_back self ^^ m) (infos ! 0)) = None"
    and "\<forall>j. 0 < j \<and> j < length infos \<longrightarrow> sample self (infos ! j) \<noteq> None"
    and "\<forall>i<k. rng s (draws s + i) mod length infos = 0"
    and "rng s (draws s + k) mod length infos \<noteq> 0"
  shows "\<exists>d self' s'. getitem self s 0 = Some (Inr (Some d, self', s')) \<and>
           Some d = sample self (infos ! (rng s (draws s + k) mod length infos)) \<and>
           draws s' = draws s + k + 1 \<and>
           prepared s' = prepared s @ replicate (k + 1) 0 @ [rng s (draws s + k) mod length infos]"
  using loop_retry[OF assms(2-7)] assms(1) by (auto simp: getitem_def)

lemma reject_a_img_info:
  "img_info ((written_back (dataset_of reject_a t xs) ^^ m) r) = img_info r"
  by (induction m) (simp_all add: written_back_def dataset_of_def reject_a_def pre_pipeline_def)

theorem getitem_retries_until_valid_witness:
  "\<exists>self' s'. getitem (dataset_of reject_a False
                 [info ''a.jpg'' 640 480, info ''b.jpg'' 64 64, info ''c.jpg'' 32 32]) fetch0 0
      = Some (Inr (Some ''c.jpg'', self', s')) \<and> draws s' = 3 \<and> prepared s' = [0, 0, 0, 2]"
proof -
  let ?xs = "[info ''a.jpg'' 640 480, info ''b.jpg'' 64 64, info ''c.jpg'' 32 32]"
  let ?ds = "dataset_of reject_a False ?xs"
  have h1: "\<not> test_mode ?ds" by (simp add: dataset_of_def)
  have h2: "data_infos ?ds = Some ?xs" by (simp add: dataset_of_def)
  have h3: "2 \<le> length ?xs" by simp
  have s: "sample ?ds r = (if filename (img_info r) = ''a.jpg'' then None
                           else Some (filename (img_info r)))" for r
    by (simp add: sample_def dataset_of_def reject_a_def pre_pipeline_def)
  have h4: "\<forall>m. sample ?ds ((written_back ?ds ^^ m) (?xs ! 0)) = None"
    unfolding s reject_a_img_info by (simp add: info_def)
  have h5: "\<forall>j. 0 < j \<and> j < length ?xs \<longrightarrow> sample ?ds (?xs ! j) \<noteq> None"
    unfolding s by (auto simp: info_def less_Suc_eq numeral_3_eq_3)
  have h6: "\<forall>i<2. rng fetch0 (draws fetch0 + i) mod length ?xs = 0"
    by (simp add: fetch0_def draws_0_0_2_def)
  have h7: "rng fetch0 (draws fetch0 + 2) mod length ?xs \<noteq> 0"
    by (simp add: fetch0_def draws_0_0_2_def)
  have c: "sample ?ds (?xs ! (rng fetch0 (draws fetch0 + 2) mod length ?xs)) = Some ''c.jpg''"
    unfolding s by (simp add: fetch0_def draws_0_0_2_def info_def)
  have j: "rng fetch0 (draws fetch0 + 2) mod length ?xs = 2"
    by (simp add: fetch0_def draws_0_0_2_def)
  from getitem_retries_until_valid[OF h1 h2 h3 h4 h5 h6 h7]
  obtain d self' s' where
    r: "getitem ?ds fetch0 0 = Some (Inr (Some d, self', s'))"
       "Some d = sample ?ds (?xs ! (rng fetch0 (draws fetch0 + 2) mod length ?xs))"
       "draws s' = draws fetch0 + 2 + 1"
       "prepared s' = prepared fetch0 @ replicate (2 + 1) 0 @
          [rng fetch0 (draws fetch0 + 2) mod length ?xs]"
    by blast
  have d: "d = ''c.jpg''" using r(2) c by simp
  have n: "draws s' = 3" using r(3) by (simp add: fetch0_def)
  have p: "prepared s' = [0, 0, 0, 2]"
    using r(4) unfolding j by (simp add: fetch0_def numeral_3_eq_3)
  show ?thesis using r(1) d n p by blast
qed

end
